theory Spec2Isabelle
  imports Complex_Main "HOL-Library.AList"
begin

section \<open>Python values and exceptions\<close>

text \<open>
  An exception instance is its class name and its message. \<open>Exn\<close> is an instance of a
  subclass of \<open>Exception\<close>, which the clauses \<open>except Exception\<close> of the source catch;
  \<open>BaseExn\<close> is an instance of any other class (KeyboardInterrupt, SystemExit,
  asyncio.CancelledError), which those clauses let through.
\<close>

datatype exn = Exn string string | BaseExn string string

fun is_Exception :: "exn \<Rightarrow> bool" where
  "is_Exception (Exn cls msg) = True"
| "is_Exception (BaseExn cls msg) = False"

text \<open>Values that appear in the payload of a rollout and in request metadata.\<close>

datatype pyval = PNone | PBool bool | PInt int | PFloat real | PStr string

text \<open>
  Python floats are modelled by the reals: comparison and truth value of a float are
  those of the number it denotes; the rounding of float arithmetic is not modelled.
  Python's truth value of an optional number: \<open>None\<close> and zero are false.
\<close>

definition truthy_int :: "int option \<Rightarrow> bool" where
  "truthy_int x = (case x of None \<Rightarrow> False | Some n \<Rightarrow> n \<noteq> 0)"

definition truthy_float :: "real option \<Rightarrow> bool" where
  "truthy_float x = (case x of None \<Rightarrow> False | Some d \<Rightarrow> d \<noteq> 0)"

text \<open>\<open>int(x)\<close> on a float truncates towards zero.\<close>

definition py_int :: "real \<Rightarrow> int" where
  "py_int x = (if 0 \<le> x then \<lfloor>x\<rfloor> else \<lceil>x\<rceil>)"

text \<open>\<open>d.update(m)\<close> on dictionaries kept in insertion order.\<close>

definition dict_update :: "('k \<times> 'v) list \<Rightarrow> ('k \<times> 'v) list \<Rightarrow> ('k \<times> 'v) list" where
  "dict_update d m = foldl (\<lambda>acc kv. AList.update (fst kv) (snd kv) acc) d m"

text \<open>\<open>str.lower\<close> on ASCII text.\<close>

definition lower_char :: "char \<Rightarrow> char" where
  "lower_char c =
     (if 65 \<le> (of_char c :: nat) \<and> (of_char c :: nat) \<le> 90
      then char_of ((of_char c :: nat) + 32) else c)"

definition lower :: "string \<Rightarrow> string" where
  "lower s = map lower_char s"


section \<open>The tracer: \<open>OpenClawLightningTracer\<close>\<close>

text \<open>
  The objects of the tracing backend are opaque: a handle stands for one. A rollout
  is what \<open>store.start_rollout\<close> returns; the code reads \<open>rollout_id\<close> and
  \<open>attempt.attempt_id\<close> of it.
\<close>

type_synonym handle = nat

record rollout =
  rollout_id :: string
  attempt_id :: string

record OpenClawLightningTracer =
  enabled :: bool
  tracer :: "handle option"
  store :: "handle option"
  current_rollout :: "rollout option"
  current_tracer_ctx :: "handle option"
  session_start_time :: "real option"
  tool_call_count :: int

text \<open>
  The calls the tracer makes to the backend, and the run of the wrapped work, in the
  order they happen. Calls to the logger change nothing in the tracer and are left out.
\<close>

datatype attr = AStr string | AInt int

datatype event =
    StartRollout "(string \<times> pyval) list"
  | LifespanEnter
  | TraceContextEnter int string string
  | SpanEnter string
  | SetAttribute string attr
  | SpanExit "exn option"
  | BodyRun
  | EmitReward real
  | ContextExit

subsection \<open>Construction and the availability gate\<close>

text \<open>
  What the process environment gives the constructor: the value of the variable
  \<open>ENABLE_AGENT_LIGHTNING\<close>, whether the import of the library succeeded, and how the
  two constructors of the backend behave.
\<close>

record environment =
  ENABLE_AGENT_LIGHTNING :: "string option"
  AGENT_LIGHTNING_AVAILABLE :: bool
  OtelTracer_new :: "exn + handle"
  InMemoryLightningStore_new :: "exn + handle"

text \<open>
  \<open>_check_enabled\<close> runs as the first statement of \<open>__init__\<close>, before
  \<open>self.logger\<close> is assigned: the branch that warns about a missing library reads an
  attribute that does not exist yet.
\<close>

definition check_enabled :: "environment \<Rightarrow> exn + bool" where
  "check_enabled env =
     (if \<not> (lower (case ENABLE_AGENT_LIGHTNING env of None \<Rightarrow> ''false'' | Some v \<Rightarrow> v) = ''true'')
      then Inr False
      else if \<not> AGENT_LIGHTNING_AVAILABLE env
      then Inl (Exn ''AttributeError'' ''object has no attribute logger'')
      else Inr True)"

definition init_fields :: "bool \<Rightarrow> OpenClawLightningTracer" where
  "init_fields en =
     \<lparr> enabled = en, tracer = None, store = None, current_rollout = None,
       current_tracer_ctx = None, session_start_time = None, tool_call_count = 0 \<rparr>"

definition new_tracer :: "environment \<Rightarrow> exn + OpenClawLightningTracer" where
  "new_tracer env =
     (case check_enabled env of
        Inl e \<Rightarrow> Inl e
      | Inr en \<Rightarrow>
          (if en then
             (case OtelTracer_new env of
                Inl e \<Rightarrow>
                  (if is_Exception e then Inr ((init_fields en)\<lparr>enabled := False\<rparr>) else Inl e)
              | Inr t \<Rightarrow>
                  (case InMemoryLightningStore_new env of
                     Inl e \<Rightarrow>
                       (if is_Exception e
                        then Inr ((init_fields en)\<lparr>tracer := Some t, enabled := False\<rparr>)
                        else Inl e)
                   | Inr s \<Rightarrow> Inr ((init_fields en)\<lparr>tracer := Some t, store := Some s\<rparr>)))
           else Inr (init_fields en)))"

subsection \<open>\<open>start_session\<close>\<close>

record start_backend =
  time_time :: real
  start_rollout :: "(string \<times> pyval) list \<Rightarrow> exn + rollout"
  lifespan_enter :: "exn option"
  trace_context_aenter :: "exn + handle"

definition input_data :: "string \<Rightarrow> real \<Rightarrow> (string \<times> pyval) list option \<Rightarrow> (string \<times> pyval) list" where
  "input_data user_message t session_metadata =
     (let d = [(''user_message'', PStr user_message), (''timestamp'', PFloat t)]
      in case session_metadata of
           None \<Rightarrow> d
         | Some m \<Rightarrow> (if m \<noteq> [] then dict_update d m else d))"

text \<open>
  The two handlers of \<open>start_session\<close>. Each is given the tracer as it is when the
  exception arrives, the events so far and the exception; an exception that is not an
  \<open>Exception\<close> leaves the method.
\<close>

definition start_outer_except ::
  "OpenClawLightningTracer \<Rightarrow> event list \<Rightarrow> exn \<Rightarrow> OpenClawLightningTracer \<times> event list \<times> exn option" where
  "start_outer_except self evs e =
     (if is_Exception e then (self\<lparr>enabled := False\<rparr>, evs, None) else (self, evs, Some e))"

definition start_inner_except ::
  "OpenClawLightningTracer \<Rightarrow> event list \<Rightarrow> exn \<Rightarrow> OpenClawLightningTracer \<times> event list \<times> exn option" where
  "start_inner_except self evs e =
     (if is_Exception e then (self\<lparr>current_tracer_ctx := None\<rparr>, evs, None)
      else start_outer_except self evs e)"

definition start_session ::
  "OpenClawLightningTracer \<Rightarrow> string \<Rightarrow> (string \<times> pyval) list option \<Rightarrow> start_backend
     \<Rightarrow> OpenClawLightningTracer \<times> event list \<times> exn option" where
  "start_session self user_message session_metadata be =
     (if \<not> enabled self then (self, [], None)
      else
        let t = time_time be;
            s1 = self\<lparr>session_start_time := Some t, tool_call_count := 0\<rparr>;
            inp = input_data user_message t session_metadata
        in case store s1 of
             None \<Rightarrow> start_outer_except s1 [] (Exn ''AttributeError'' ''NoneType has no attribute start_rollout'')
           | Some st \<Rightarrow>
               (case start_rollout be inp of
                  Inl e \<Rightarrow> start_outer_except s1 [StartRollout inp] e
                | Inr r \<Rightarrow>
                    let s2 = s1\<lparr>current_rollout := Some r\<rparr> in
                    (case tracer s2 of
                       None \<Rightarrow> start_inner_except s2 [StartRollout inp]
                                 (Exn ''AttributeError'' ''NoneType has no attribute lifespan'')
                     | Some tr \<Rightarrow>
                         (case lifespan_enter be of
                            Some e \<Rightarrow> start_inner_except s2 [StartRollout inp, LifespanEnter] e
                          | None \<Rightarrow>
                              let evs = [StartRollout inp, LifespanEnter,
                                         TraceContextEnter (py_int t) (rollout_id r) (attempt_id r)]
                              in (case trace_context_aenter be of
                                    Inl e \<Rightarrow> start_inner_except s2 evs e
                                  | Inr c \<Rightarrow> (s2\<lparr>current_tracer_ctx := Some c\<rparr>, evs, None))))))"

subsection \<open>\<open>emit_task_reward\<close>\<close>

text \<open>The condition of the token bonus: \<open>tokens_used and expected_tokens and tokens_used < expected_tokens\<close>.\<close>

definition token_bonus_applies :: "int option \<Rightarrow> int option \<Rightarrow> bool" where
  "token_bonus_applies tokens_used expected_tokens =
     (truthy_int tokens_used \<and> truthy_int expected_tokens \<and>
      (case (tokens_used, expected_tokens) of
         (Some t, Some e) \<Rightarrow> t < e
       | _ \<Rightarrow> False))"

text \<open>
  \<open>duration_seconds\<close> after the statement
  \<open>if duration_seconds is None and self.session_start_time: duration_seconds = time.time() - self.session_start_time\<close>.
\<close>

definition effective_duration :: "real option \<Rightarrow> real option \<Rightarrow> real \<Rightarrow> real option" where
  "effective_duration duration_seconds start now =
     (if duration_seconds = None \<and> truthy_float start
      then (case start of Some t \<Rightarrow> Some (now - t) | None \<Rightarrow> None)
      else duration_seconds)"

text \<open>The condition of the time bonus: \<open>duration_seconds and duration_seconds < 30.0\<close>.\<close>

definition time_bonus_applies :: "real option \<Rightarrow> bool" where
  "time_bonus_applies duration_seconds =
     (truthy_float duration_seconds \<and>
      (case duration_seconds of Some d \<Rightarrow> d < 30 | None \<Rightarrow> False))"

text \<open>
  The reward computed between \<open>reward = 1.0 if success else -0.5\<close> and the call of
  \<open>emit_reward\<close>, from the arguments, the session start time of the tracer and the
  reading of the clock.
\<close>

definition task_reward ::
  "real option \<Rightarrow> real \<Rightarrow> bool \<Rightarrow> int option \<Rightarrow> int option \<Rightarrow> real option \<Rightarrow> int option \<Rightarrow> real" where
  "task_reward start now success tokens_used expected_tokens duration_seconds user_rating =
     (let r0 = (if success then 1 else - 0.5);
          r1 = (if token_bonus_applies tokens_used expected_tokens then r0 + 0.1 else r0);
          d = effective_duration duration_seconds start now;
          r2 = (if time_bonus_applies d then r1 + 0.1 else r1);
          r3 = (case user_rating of None \<Rightarrow> r2 | Some u \<Rightarrow> r2 + (of_int u - 3) * 0.2)
      in r3)"

record reward_backend =
  reward_time :: real
  emit_reward :: "real \<Rightarrow> exn option"

definition emit_task_reward ::
  "OpenClawLightningTracer \<Rightarrow> bool \<Rightarrow> int option \<Rightarrow> int option \<Rightarrow> real option \<Rightarrow> int option
     \<Rightarrow> reward_backend \<Rightarrow> OpenClawLightningTracer \<times> event list \<times> exn option" where
  "emit_task_reward self success tokens_used expected_tokens duration_seconds user_rating be =
     (if \<not> enabled self \<or> current_tracer_ctx self = None then (self, [], None)
      else
        let reward = task_reward (session_start_time self) (reward_time be) success
                       tokens_used expected_tokens duration_seconds user_rating
        in case emit_reward be reward of
             None \<Rightarrow> (self, [EmitReward reward], None)
           | Some e \<Rightarrow>
               (if is_Exception e then (self, [EmitReward reward], None)
                else (self, [EmitReward reward], Some e)))"

subsection \<open>\<open>end_session\<close>\<close>

text \<open>
  \<open>ctx_aexit\<close> is what \<open>current_tracer_ctx.__aexit__(None, None, None)\<close> does when it
  is called: it returns, or it raises the given exception.
\<close>

definition end_session ::
  "OpenClawLightningTracer \<Rightarrow> exn option \<Rightarrow> OpenClawLightningTracer \<times> event list \<times> exn option" where
  "end_session self ctx_aexit =
     (if \<not> enabled self then (self, [], None)
      else
        (case current_tracer_ctx self of
           Some c \<Rightarrow>
             (case ctx_aexit of
                Some e \<Rightarrow>
                  (if is_Exception e then (self, [ContextExit], None)
                   else (self, [ContextExit], Some e))
              | None \<Rightarrow>
                  (self\<lparr>current_tracer_ctx := None, current_rollout := None,
                        session_start_time := None, tool_call_count := 0\<rparr>,
                   [ContextExit], None))
         | None \<Rightarrow>
             (self\<lparr>current_rollout := None, session_start_time := None, tool_call_count := 0\<rparr>,
              [], None)))"

subsection \<open>\<open>get_session_stats\<close>\<close>

definition get_session_stats :: "OpenClawLightningTracer \<Rightarrow> real \<Rightarrow> (string \<times> pyval) list" where
  "get_session_stats self now =
     (if \<not> enabled self \<or> \<not> truthy_float (session_start_time self) then []
      else
        [(''enabled'', PBool (enabled self)),
         (''rollout_id'', (case current_rollout self of Some r \<Rightarrow> PStr (rollout_id r) | None \<Rightarrow> PNone)),
         (''duration_seconds'',
            (case session_start_time self of Some t \<Rightarrow> PFloat (now - t) | None \<Rightarrow> PNone)),
         (''tool_call_count'', PInt (tool_call_count self))])"


section \<open>\<open>trace_tool\<close>: a generator under \<open>contextlib.contextmanager\<close>\<close>

text \<open>
  \<open>trace_tool\<close> is a generator function with three \<open>yield\<close> statements: the one of the
  pass-through branch, the one inside \<open>with ... as span\<close>, and the one of the handler
  \<open>except Exception\<close>. A generator is resumed where it stopped, either normally
  (\<open>next\<close>) or with an exception raised at the \<open>yield\<close> (\<open>throw\<close>); a resumption ends
  at the next \<open>yield\<close>, with the return of the function, or with an exception. A
  position is the \<open>yield\<close> where the generator is suspended, or \<open>Finished\<close>.
\<close>

datatype gen_pos = AtYieldPass | AtYieldSpan | AtYieldExcept | Finished

datatype gen_step = Yields | Returns | Throws exn

text \<open>
  The span of the backend: entering it (the call of \<open>start_as_current_span\<close> and
  \<open>__enter__\<close>), \<open>set_attribute\<close> for a key and a value, and \<open>__exit__\<close>, each of which
  returns or raises. The \<open>__exit__\<close> of a span returns a false value: it does not
  swallow the exception it is given.
\<close>

record span_backend =
  span_enter :: "exn option"
  set_attribute :: "string \<Rightarrow> attr \<Rightarrow> exn option"
  span_exit :: "exn option"

text \<open>
  A keyword argument is its name and what \<open>str(value)\<close> gives: a string, or the
  exception that the \<open>__str__\<close> of the value raises.
\<close>

type_synonym kwargs = "(string \<times> (exn + string)) list"

definition span_attributes :: "string \<Rightarrow> int \<Rightarrow> kwargs \<Rightarrow> (string \<times> (exn + attr)) list" where
  "span_attributes tool_name call_number kw =
     [(''tool.name'', Inr (AStr tool_name)), (''tool.call_number'', Inr (AInt call_number))] @
     map (\<lambda>(key, v). (''tool.'' @ key,
            (case v of Inl e \<Rightarrow> Inl e | Inr s \<Rightarrow> Inr (AStr (take 200 s))))) kw"

fun set_attributes ::
  "(string \<Rightarrow> attr \<Rightarrow> exn option) \<Rightarrow> (string \<times> (exn + attr)) list \<Rightarrow> event list \<times> exn option" where
  "set_attributes f [] = ([], None)"
| "set_attributes f ((k, Inl e) # rest) = ([], Some e)"
| "set_attributes f ((k, Inr v) # rest) =
     (case f k v of
        Some e \<Rightarrow> ([SetAttribute k v], Some e)
      | None \<Rightarrow> (case set_attributes f rest of (evs, r) \<Rightarrow> (SetAttribute k v # evs, r)))"

text \<open>
  The handler \<open>except Exception as e\<close>: it logs and yields. An exception
  that is not an \<open>Exception\<close> leaves the generator.
\<close>

definition trace_tool_except ::
  "OpenClawLightningTracer \<Rightarrow> event list \<Rightarrow> exn
     \<Rightarrow> gen_pos \<times> OpenClawLightningTracer \<times> event list \<times> gen_step" where
  "trace_tool_except self evs e =
     (if is_Exception e then (AtYieldExcept, self, evs, Yields)
      else (Finished, self, evs, Throws e))"

text \<open>The run of the generator from its start to its first stop.\<close>

definition trace_tool_start ::
  "OpenClawLightningTracer \<Rightarrow> string \<Rightarrow> kwargs \<Rightarrow> span_backend
     \<Rightarrow> gen_pos \<times> OpenClawLightningTracer \<times> event list \<times> gen_step" where
  "trace_tool_start self tool_name kw be =
     (if \<not> enabled self \<or> current_tracer_ctx self = None then (AtYieldPass, self, [], Yields)
      else
        let s1 = self\<lparr>tool_call_count := tool_call_count self + 1\<rparr>;
            name = ''tool-'' @ tool_name
        in case span_enter be of
             Some e \<Rightarrow> trace_tool_except s1 [SpanEnter name] e
           | None \<Rightarrow>
               (case set_attributes (set_attribute be)
                       (span_attributes tool_name (tool_call_count s1) kw) of
                  (evs, None) \<Rightarrow> (AtYieldSpan, s1, SpanEnter name # evs, Yields)
                | (evs, Some e) \<Rightarrow>
                    (case span_exit be of
                       None \<Rightarrow> trace_tool_except s1 (SpanEnter name # evs @ [SpanExit (Some e)]) e
                     | Some e2 \<Rightarrow>
                         trace_tool_except s1 (SpanEnter name # evs @ [SpanExit (Some e)]) e2)))"

text \<open>The generator resumed normally, after the wrapped work has returned.\<close>

definition trace_tool_next ::
  "gen_pos \<Rightarrow> OpenClawLightningTracer \<Rightarrow> span_backend
     \<Rightarrow> gen_pos \<times> OpenClawLightningTracer \<times> event list \<times> gen_step" where
  "trace_tool_next pos self be =
     (case pos of
        AtYieldSpan \<Rightarrow>
          (case span_exit be of
             None \<Rightarrow> (Finished, self, [SpanExit None], Returns)
           | Some e2 \<Rightarrow> trace_tool_except self [SpanExit None] e2)
      | _ \<Rightarrow> (Finished, self, [], Returns))"

text \<open>The generator resumed with an exception raised at the \<open>yield\<close> where it stopped.\<close>

definition trace_tool_throw ::
  "gen_pos \<Rightarrow> OpenClawLightningTracer \<Rightarrow> span_backend \<Rightarrow> exn
     \<Rightarrow> gen_pos \<times> OpenClawLightningTracer \<times> event list \<times> gen_step" where
  "trace_tool_throw pos self be e =
     (case pos of
        AtYieldSpan \<Rightarrow>
          (case span_exit be of
             None \<Rightarrow> trace_tool_except self [SpanExit (Some e)] e
           | Some e2 \<Rightarrow> trace_tool_except self [SpanExit (Some e)] e2)
      | _ \<Rightarrow> (Finished, self, [], Throws e))"

text \<open>
  The statement \<open>with tracer.trace_tool(name, **kwargs): body\<close>, as
  \<open>contextlib.contextmanager\<close> runs it. \<open>__enter__\<close> runs the generator to its first
  \<open>yield\<close>; then the wrapped work runs; \<open>__exit__\<close> resumes the generator, normally when
  the work returned and with the exception of the work when it raised. A generator that
  yields a second time is closed and \<open>__exit__\<close> raises a \<open>RuntimeError\<close>; a generator
  that returns after \<open>throw\<close> swallows the exception.
\<close>

datatype 'a outcome = Returned 'a | Raised exn

datatype 'a with_result = Completed 'a | Propagated exn | Swallowed

definition generator_exit :: exn where
  "generator_exit = BaseExn ''GeneratorExit'' []"

definition with_trace_tool ::
  "OpenClawLightningTracer \<Rightarrow> string \<Rightarrow> kwargs \<Rightarrow> span_backend \<Rightarrow> 'a outcome
     \<Rightarrow> OpenClawLightningTracer \<times> event list \<times> 'a with_result" where
  "with_trace_tool self tool_name kw be body =
     (case trace_tool_start self tool_name kw be of
        (pos, s1, ev1, Throws e) \<Rightarrow> (s1, ev1, Propagated e)
      | (pos, s1, ev1, Returns) \<Rightarrow>
          (s1, ev1, Propagated (Exn ''RuntimeError'' ''generator didn't yield''))
      | (pos, s1, ev1, Yields) \<Rightarrow>
          (case body of
             Returned v \<Rightarrow>
               (case trace_tool_next pos s1 be of
                  (pos2, s2, ev2, Returns) \<Rightarrow> (s2, ev1 @ [BodyRun] @ ev2, Completed v)
                | (pos2, s2, ev2, Throws e) \<Rightarrow> (s2, ev1 @ [BodyRun] @ ev2, Propagated e)
                | (pos2, s2, ev2, Yields) \<Rightarrow>
                    (case trace_tool_throw pos2 s2 be generator_exit of
                       (pos3, s3, ev3, r3) \<Rightarrow>
                         (s3, ev1 @ [BodyRun] @ ev2 @ ev3,
                          Propagated (Exn ''RuntimeError'' ''generator didn't stop''))))
           | Raised e \<Rightarrow>
               (case trace_tool_throw pos s1 be e of
                  (pos2, s2, ev2, Returns) \<Rightarrow> (s2, ev1 @ [BodyRun] @ ev2, Swallowed)
                | (pos2, s2, ev2, Throws e') \<Rightarrow> (s2, ev1 @ [BodyRun] @ ev2, Propagated e')
                | (pos2, s2, ev2, Yields) \<Rightarrow>
                    (case trace_tool_throw pos2 s2 be generator_exit of
                       (pos3, s3, ev3, r3) \<Rightarrow>
                         (s3, ev1 @ [BodyRun] @ ev2 @ ev3,
                          Propagated (Exn ''RuntimeError'' ''generator didn't stop after throw()''))))))"


section \<open>The bridge service\<close>

text \<open>
  The module keeps two globals: the tracer, created by the first call of
  \<open>handle_session_start\<close>, and the dictionary \<open>current_sessions\<close>. A session id is a
  string, or \<open>None\<close> when the request carries none; the dictionary is kept as an
  association list in insertion order, its keys distinct.
\<close>

record session_record =
  started_at :: string
  message :: string
  tool_count :: int

record service =
  the_tracer :: "OpenClawLightningTracer option"
  current_sessions :: "(string option \<times> session_record) list"

datatype json =
    JNull | JBool bool | JInt int | JFloat real | JStr string | JObj "(string \<times> json) list"

record response =
  http_status :: nat
  json_body :: "(string \<times> json) list"

definition json_response :: "(string \<times> json) list \<Rightarrow> response" where
  "json_response d = \<lparr> http_status = 200, json_body = d \<rparr>"

definition json_of_str :: "string option \<Rightarrow> json" where
  "json_of_str x = (case x of None \<Rightarrow> JNull | Some s \<Rightarrow> JStr s)"

definition json_of_pyval :: "pyval \<Rightarrow> json" where
  "json_of_pyval v =
     (case v of PNone \<Rightarrow> JNull | PBool b \<Rightarrow> JBool b | PInt i \<Rightarrow> JInt i
      | PFloat r \<Rightarrow> JFloat r | PStr s \<Rightarrow> JStr s)"

text \<open>
  The clause \<open>except Exception as e\<close> that closes every handler: the response with
  status 500; another exception leaves the handler.
\<close>

definition handler_except :: "exn \<Rightarrow> exn + response" where
  "handler_except e =
     (case e of
        Exn cls msg \<Rightarrow> Inr \<lparr> http_status = 500, json_body = [(''success'', JBool False), (''error'', JStr msg)] \<rparr>
      | BaseExn cls msg \<Rightarrow> Inl e)"

subsection \<open>\<open>handle_session_start\<close>\<close>

text \<open>
  The body of a request is what \<open>await request.json()\<close> gives: the exception it raises,
  or the fields the handler reads. A field is \<open>None\<close> when the key is absent;
  \<open>session_id\<close> may also be present with the value null.
\<close>

record start_request =
  req_message :: "string option"
  req_session_id :: "string option option"
  req_metadata :: "(string \<times> pyval) list option"

text \<open>The two readings of the wall clock: \<open>datetime.now().timestamp()\<close> as the f-string prints it, and \<open>datetime.now().isoformat()\<close>.\<close>

record clock =
  timestamp_str :: string
  isoformat :: string

definition handle_session_start ::
  "service \<Rightarrow> environment \<Rightarrow> clock \<Rightarrow> start_backend \<Rightarrow> exn + start_request
     \<Rightarrow> service \<times> event list \<times> (exn + response)" where
  "handle_session_start s env clk be req =
     (case req of
        Inl e \<Rightarrow> (s, [], handler_except e)
      | Inr data \<Rightarrow>
         (let user_message = (case req_message data of None \<Rightarrow> [] | Some m \<Rightarrow> m);
              session_id = (case req_session_id data of
                              None \<Rightarrow> Some (''session-'' @ timestamp_str clk)
                            | Some sid \<Rightarrow> sid);
              metadata = (case req_metadata data of None \<Rightarrow> [] | Some m \<Rightarrow> m)
          in case (case the_tracer s of None \<Rightarrow> new_tracer env | Some t \<Rightarrow> Inr t) of
               Inl e \<Rightarrow> (s, [], handler_except e)
             | Inr t \<Rightarrow>
                 (case start_session t user_message
                         (Some (AList.update ''bridge_session_id''
                                  (case session_id of None \<Rightarrow> PNone | Some i \<Rightarrow> PStr i) metadata)) be of
                    (t', evs, Some e) \<Rightarrow> (s\<lparr>the_tracer := Some t'\<rparr>, evs, handler_except e)
                  | (t', evs, None) \<Rightarrow>
                      (let entry = \<lparr> started_at = isoformat clk, message = user_message,
                                     tool_count = 0 \<rparr>;
                           sessions = AList.update session_id entry (current_sessions s)
                       in s\<lparr>the_tracer := Some t', current_sessions := sessions\<rparr>,
                       evs,
                       Inr (json_response
                              [(''success'', JBool True),
                               (''session_id'', json_of_str session_id),
                               (''enabled'', JBool (enabled t'))])))))"

subsection \<open>\<open>handle_tool_trace\<close>\<close>

record trace_request =
  trace_session_id :: "string option"
  trace_tool_name :: "string option"
  trace_params :: "(string \<times> pyval) list option"

definition tracing_disabled :: "service \<Rightarrow> bool" where
  "tracing_disabled s = (case the_tracer s of None \<Rightarrow> True | Some t \<Rightarrow> \<not> enabled t)"

definition handle_tool_trace :: "service \<Rightarrow> exn + trace_request \<Rightarrow> service \<times> (exn + response)" where
  "handle_tool_trace s req =
     (case req of
        Inl e \<Rightarrow> (s, handler_except e)
      | Inr data \<Rightarrow>
          let session_id = trace_session_id data;
              tool_name = trace_tool_name data
          in if tracing_disabled s
             then (s, Inr (json_response
                             [(''success'', JBool True), (''traced'', JBool False),
                              (''reason'', JStr ''tracing disabled'')]))
             else
               (let sessions =
                      (case map_of (current_sessions s) session_id of
                         Some r \<Rightarrow>
                           AList.update session_id (r\<lparr>tool_count := tool_count r + 1\<rparr>)
                             (current_sessions s)
                       | None \<Rightarrow> current_sessions s)
                in (s\<lparr>current_sessions := sessions\<rparr>,
                    Inr (json_response
                           [(''success'', JBool True), (''traced'', JBool True),
                            (''tool_name'', json_of_str tool_name)]))))"

subsection \<open>\<open>handle_session_reward\<close>\<close>

record reward_request =
  reward_session_id :: "string option"
  reward_success :: "bool option"
  reward_tokens_used :: "int option"
  reward_expected_tokens :: "int option"
  reward_duration :: "real option"

definition handle_session_reward ::
  "service \<Rightarrow> reward_backend \<Rightarrow> exn + reward_request \<Rightarrow> service \<times> event list \<times> (exn + response)" where
  "handle_session_reward s be req =
     (case req of
        Inl e \<Rightarrow> (s, [], handler_except e)
      | Inr data \<Rightarrow>
          (case the_tracer s of
             None \<Rightarrow>
               (s, [], Inr (json_response
                              [(''success'', JBool True), (''rewarded'', JBool False),
                               (''reason'', JStr ''tracing disabled'')]))
           | Some t \<Rightarrow>
               (if \<not> enabled t
                then (s, [], Inr (json_response
                                    [(''success'', JBool True), (''rewarded'', JBool False),
                                     (''reason'', JStr ''tracing disabled'')]))
                else
                  (case emit_task_reward t
                          (case reward_success data of None \<Rightarrow> False | Some b \<Rightarrow> b)
                          (reward_tokens_used data) (reward_expected_tokens data)
                          (reward_duration data) None be of
                     (t', evs, Some e) \<Rightarrow> (s\<lparr>the_tracer := Some t'\<rparr>, evs, handler_except e)
                   | (t', evs, None) \<Rightarrow>
                       (s\<lparr>the_tracer := Some t'\<rparr>, evs,
                        Inr (json_response
                               [(''success'', JBool True), (''rewarded'', JBool True)]))))))"

subsection \<open>\<open>handle_session_end\<close>\<close>

definition handle_session_end ::
  "service \<Rightarrow> exn option \<Rightarrow> exn + string option \<Rightarrow> service \<times> event list \<times> (exn + response)" where
  "handle_session_end s ctx_aexit req =
     (case req of
        Inl e \<Rightarrow> (s, [], handler_except e)
      | Inr session_id \<Rightarrow>
          (case the_tracer s of
             None \<Rightarrow>
               (s\<lparr>current_sessions := AList.delete session_id (current_sessions s)\<rparr>, [],
                Inr (json_response
                       [(''success'', JBool True), (''ended'', JBool False),
                        (''reason'', JStr ''tracing disabled'')]))
           | Some t \<Rightarrow>
               (if \<not> enabled t
                then (s\<lparr>current_sessions := AList.delete session_id (current_sessions s)\<rparr>, [],
                      Inr (json_response
                             [(''success'', JBool True), (''ended'', JBool False),
                              (''reason'', JStr ''tracing disabled'')]))
                else
                  (case end_session t ctx_aexit of
                     (t', evs, Some e) \<Rightarrow> (s\<lparr>the_tracer := Some t'\<rparr>, evs, handler_except e)
                   | (t', evs, None) \<Rightarrow>
                       (s\<lparr>the_tracer := Some t',
                          current_sessions := AList.delete session_id (current_sessions s)\<rparr>,
                        evs,
                        Inr (json_response
                               [(''success'', JBool True), (''ended'', JBool True)]))))))"

subsection \<open>\<open>handle_stats\<close>\<close>

definition json_of_session :: "session_record \<Rightarrow> json" where
  "json_of_session r =
     JObj [(''started_at'', JStr (started_at r)), (''message'', JStr (message r)),
           (''tool_count'', JInt (tool_count r))]"

definition json_key :: "string option \<Rightarrow> string" where
  "json_key k = (case k of None \<Rightarrow> ''null'' | Some s \<Rightarrow> s)"

definition handle_stats :: "service \<Rightarrow> real \<Rightarrow> response" where
  "handle_stats s now =
     (let stats =
            [(''enabled'', JBool (case the_tracer s of None \<Rightarrow> False | Some t \<Rightarrow> enabled t)),
             (''active_sessions'', JInt (int (length (current_sessions s)))),
             (''sessions'',
                JObj (map (\<lambda>(k, r). (json_key k, json_of_session r)) (current_sessions s)))]
      in json_response
           (case the_tracer s of
              None \<Rightarrow> stats
            | Some t \<Rightarrow>
                (if enabled t
                 then stats @
                      [(''session_stats'',
                          JObj (map (\<lambda>(k, v). (k, json_of_pyval v)) (get_session_stats t now)))]
                 else stats)))"

text \<open>The service as the module is loaded.\<close>

definition fresh_service :: service where
  "fresh_service = \<lparr> the_tracer = None, current_sessions = [] \<rparr>"

section \<open>Sequences of operations, and the idle state\<close>

text \<open>
  The four operations of a tracer, each with the behaviour of the backend during the
  call, and a tracer after one of them.
\<close>

datatype 'a operation =
    StartSession string "(string \<times> pyval) list option" start_backend
  | TraceTool string kwargs span_backend "'a outcome"
  | EmitTaskReward bool "int option" "int option" "real option" "int option" reward_backend
  | EndSession "exn option"

fun apply_operation :: "OpenClawLightningTracer \<Rightarrow> 'a operation \<Rightarrow> OpenClawLightningTracer" where
  "apply_operation self (StartSession m md sb) = fst (start_session self m md sb)"
| "apply_operation self (TraceTool n kw be b) = fst (with_trace_tool self n kw be b)"
| "apply_operation self (EmitTaskReward su tu et d ur rb) =
     fst (emit_task_reward self su tu et d ur rb)"
| "apply_operation self (EndSession x) = fst (end_session self x)"

text \<open>
  The state that the specification calls \<open>IDLE\<close>: no active trace context, no rollout
  reference, no session start time.
\<close>

definition idle :: "OpenClawLightningTracer \<Rightarrow> bool" where
  "idle self =
     (current_tracer_ctx self = None \<and> current_rollout self = None \<and>
      session_start_time self = None)"

text \<open>What a response of \<open>GET /stats\<close> reports under the key \<open>active_sessions\<close>.\<close>

definition active_sessions :: "response \<Rightarrow> json option" where
  "active_sessions r = map_of (json_body r) ''active_sessions''"


section \<open>Concrete tracers, backends and requests\<close>

text \<open>A tracer as the constructor leaves it when tracing is enabled, and one in a session.\<close>

definition fresh_enabled_tracer :: OpenClawLightningTracer where
  "fresh_enabled_tracer = (init_fields True)\<lparr>tracer := Some 1, store := Some 2\<rparr>"

definition active_tracer :: OpenClawLightningTracer where
  "active_tracer =
     \<lparr> enabled = True, tracer = Some 1, store = Some 2,
       current_rollout = Some \<lparr> rollout_id = ''r-1'', attempt_id = ''a-1'' \<rparr>,
       current_tracer_ctx = Some 3, session_start_time = Some 100, tool_call_count = 3 \<rparr>"

definition value_error :: exn where
  "value_error = Exn ''ValueError'' ''boom''"

definition exit_error :: exn where
  "exit_error = Exn ''RuntimeError'' ''exit failed''"

definition store_error :: exn where
  "store_error = Exn ''ConnectionError'' ''store unreachable''"

definition quiet_span :: span_backend where
  "quiet_span = \<lparr> span_enter = None, set_attribute = (\<lambda>k v. None), span_exit = None \<rparr>"

definition exit_fails_span :: span_backend where
  "exit_fails_span = quiet_span\<lparr>span_exit := Some exit_error\<rparr>"

definition clock_at :: "real \<Rightarrow> reward_backend" where
  "clock_at t = \<lparr> reward_time = t, emit_reward = (\<lambda>r. None) \<rparr>"

definition backend_ok :: start_backend where
  "backend_ok =
     \<lparr> time_time = 200,
       start_rollout = (\<lambda>d. Inr \<lparr> rollout_id = ''r-2'', attempt_id = ''a-2'' \<rparr>),
       lifespan_enter = None, trace_context_aenter = Inr 4 \<rparr>"

definition rollout_fails :: start_backend where
  "rollout_fails = backend_ok\<lparr>time_time := 100, start_rollout := (\<lambda>d. Inl store_error)\<rparr>"

definition context_fails :: start_backend where
  "context_fails = backend_ok\<lparr>time_time := 100, trace_context_aenter := Inl exit_error\<rparr>"

definition hi_request :: start_request where
  "hi_request = \<lparr> req_message = Some ''hi'', req_session_id = None, req_metadata = None \<rparr>"

definition flag_unset :: environment where
  "flag_unset =
     \<lparr> ENABLE_AGENT_LIGHTNING = None, AGENT_LIGHTNING_AVAILABLE = True,
       OtelTracer_new = Inr 1, InMemoryLightningStore_new = Inr 2 \<rparr>"

definition noon :: clock where
  "noon = \<lparr> timestamp_str = ''1700000000.5'', isoformat = ''2023-11-14T22:13:20.500000'' \<rparr>"

definition serving :: service where
  "serving =
     \<lparr> the_tracer = Some active_tracer,
       current_sessions =
         [(Some ''s-1'', \<lparr> started_at = ''2023-11-14T22:13:20'', message = ''hi'', tool_count = 2 \<rparr>)] \<rparr>"


section \<open>Facts about the operations\<close>

lemmas reward_defs = task_reward_def token_bonus_applies_def truthy_int_def
  effective_duration_def time_bonus_applies_def truthy_float_def

text \<open>When the two bonuses are added.\<close>

lemma token_bonus_applies_iff:
  "token_bonus_applies tokens_used expected_tokens \<longleftrightarrow>
     (\<exists>t e. tokens_used = Some t \<and> expected_tokens = Some e \<and> t \<noteq> 0 \<and> e \<noteq> 0 \<and> t < e)"
  by (auto simp: token_bonus_applies_def truthy_int_def split: option.splits)

lemma time_bonus_applies_iff:
  "time_bonus_applies duration_seconds \<longleftrightarrow>
     (\<exists>d. duration_seconds = Some d \<and> d \<noteq> 0 \<and> d < 30)"
  by (auto simp: time_bonus_applies_def truthy_float_def split: option.splits)

lemma start_session_disabled:
  "\<not> enabled self \<Longrightarrow> start_session self m md sb = (self, [], None)"
  by (simp add: start_session_def)

lemma with_trace_tool_disabled:
  "\<not> enabled self \<Longrightarrow> with_trace_tool self n kw be b =
     (self, [BodyRun], (case b of Returned v \<Rightarrow> Completed v | Raised e \<Rightarrow> Propagated e))"
  by (simp add: with_trace_tool_def trace_tool_start_def trace_tool_next_def
      trace_tool_throw_def split: outcome.splits)

lemma emit_task_reward_disabled:
  "\<not> enabled self \<Longrightarrow> emit_task_reward self su tu et d ur rb = (self, [], None)"
  by (simp add: emit_task_reward_def)

lemma end_session_disabled:
  "\<not> enabled self \<Longrightarrow> end_session self x = (self, [], None)"
  by (simp add: end_session_def)

lemma apply_operation_disabled: "\<not> enabled self \<Longrightarrow> apply_operation self op = self"
  by (cases op) (simp_all add: start_session_disabled with_trace_tool_disabled
      emit_task_reward_disabled end_session_disabled)

lemma run_disabled: "\<not> enabled self \<Longrightarrow> foldl apply_operation self ops = self"
  by (induction ops) (simp_all add: apply_operation_disabled)

lemma start_session_rollout_fails:
  assumes "enabled self" "start_rollout sb (input_data m (time_time sb) md) = Inl e"
    "is_Exception e"
  shows "\<not> enabled (fst (start_session self m md sb)) \<and>
         snd (snd (start_session self m md sb)) = None"
  using assms
  by (simp add: start_session_def start_outer_except_def Let_def split: option.splits)

lemma start_session_ctx_fails:
  assumes "enabled self" "store self \<noteq> None"
    "start_rollout sb (input_data m (time_time sb) md) = Inr r" "is_Exception e"
    "lifespan_enter sb = Some e \<or> (lifespan_enter sb = None \<and> trace_context_aenter sb = Inl e)"
  shows "enabled (fst (start_session self m md sb)) \<and>
         current_tracer_ctx (fst (start_session self m md sb)) = None \<and>
         current_rollout (fst (start_session self m md sb)) = Some r \<and>
         tracer (fst (start_session self m md sb)) = tracer self \<and>
         store (fst (start_session self m md sb)) = store self \<and>
         snd (snd (start_session self m md sb)) = None"
  using assms
  by (auto simp: start_session_def start_inner_except_def Let_def split: option.splits)

lemma start_session_ok:
  assumes "enabled self" "store self \<noteq> None" "tracer self \<noteq> None"
    "start_rollout sb (input_data m (time_time sb) md) = Inr r"
    "lifespan_enter sb = None" "trace_context_aenter sb = Inr c"
  shows "enabled (fst (start_session self m md sb)) \<and>
         current_tracer_ctx (fst (start_session self m md sb)) = Some c \<and>
         snd (snd (start_session self m md sb)) = None"
  using assms
  by (auto simp: start_session_def Let_def split: option.splits)

lemma end_session_closes:
  assumes "enabled self" "current_tracer_ctx self = None \<or> x = None"
  shows "idle (fst (end_session self x)) \<and> tool_call_count (fst (end_session self x)) = 0 \<and>
         enabled (fst (end_session self x)) \<and> snd (snd (end_session self x)) = None"
  using assms by (auto simp: end_session_def idle_def split: option.splits)

lemma end_session_idle:
  assumes "enabled self" "idle self"
  shows "end_session self x = (self\<lparr>tool_call_count := 0\<rparr>, [], None)"
  using assms by (simp add: end_session_def idle_def)

lemma end_session_exit_raises:
  assumes "enabled self" "current_tracer_ctx self = Some c" "is_Exception e"
  shows "end_session self (Some e) = (self, [ContextExit], None)"
  using assms by (simp add: end_session_def)

text \<open>The generator on the concrete run used below, one resumption at a time.\<close>

lemma trace_tool_start_active:
  "trace_tool_start active_tracer ''web_search'' [] quiet_span =
     (AtYieldSpan, active_tracer\<lparr>tool_call_count := 4\<rparr>,
      [SpanEnter ''tool-web_search'', SetAttribute ''tool.name'' (AStr ''web_search''),
       SetAttribute ''tool.call_number'' (AInt 4)], Yields)"
  by (simp add: trace_tool_start_def span_attributes_def active_tracer_def quiet_span_def)

lemma trace_tool_throw_in_span:
  "is_Exception e \<Longrightarrow>
   trace_tool_throw AtYieldSpan s quiet_span e = (AtYieldExcept, s, [SpanExit (Some e)], Yields)"
  by (simp add: trace_tool_throw_def trace_tool_except_def quiet_span_def)

lemma trace_tool_close_in_handler:
  "trace_tool_throw AtYieldExcept s be generator_exit = (Finished, s, [], Throws generator_exit)"
  by (simp add: trace_tool_throw_def)

lemma trace_tool_next_in_span:
  "trace_tool_next AtYieldSpan s quiet_span = (Finished, s, [SpanExit None], Returns)"
  by (simp add: trace_tool_next_def quiet_span_def)

text \<open>The parts of the contract of \<open>trace_tool\<close> that the code keeps.\<close>

lemma with_trace_tool_returned:
  "with_trace_tool active_tracer ''web_search'' [] quiet_span (Returned v) =
     (active_tracer\<lparr>tool_call_count := 4\<rparr>,
      [SpanEnter ''tool-web_search'', SetAttribute ''tool.name'' (AStr ''web_search''),
       SetAttribute ''tool.call_number'' (AInt 4), BodyRun, SpanExit None],
      Completed v)"
  by (simp add: with_trace_tool_def trace_tool_start_active trace_tool_next_in_span)

lemma with_trace_tool_span_enter_fails:
  assumes "enabled self" "current_tracer_ctx self \<noteq> None" "span_enter be = Some e"
    "is_Exception e"
  shows "with_trace_tool self n kw be b =
           (self\<lparr>tool_call_count := tool_call_count self + 1\<rparr>,
            [SpanEnter (''tool-'' @ n), BodyRun],
            (case b of Returned v \<Rightarrow> Completed v | Raised e' \<Rightarrow> Propagated e'))"
  using assms
  by (simp add: with_trace_tool_def trace_tool_start_def trace_tool_except_def
      trace_tool_next_def trace_tool_throw_def Let_def split: outcome.splits)

text \<open>
  A span whose \<open>__exit__\<close> raises after the wrapped work has returned: the handler
  catches the exception and yields a second time.
\<close>

lemma with_trace_tool_span_exit_fails:
  "with_trace_tool active_tracer ''web_search'' [] exit_fails_span (Returned v) =
     (active_tracer\<lparr>tool_call_count := 4\<rparr>,
      [SpanEnter ''tool-web_search'', SetAttribute ''tool.name'' (AStr ''web_search''),
       SetAttribute ''tool.call_number'' (AInt 4), BodyRun, SpanExit None],
      Propagated (Exn ''RuntimeError'' ''generator didn't stop''))"
proof -
  have a: "trace_tool_start active_tracer ''web_search'' [] exit_fails_span =
             (AtYieldSpan, active_tracer\<lparr>tool_call_count := 4\<rparr>,
              [SpanEnter ''tool-web_search'', SetAttribute ''tool.name'' (AStr ''web_search''),
               SetAttribute ''tool.call_number'' (AInt 4)], Yields)"
    by (simp add: trace_tool_start_def span_attributes_def active_tracer_def
        exit_fails_span_def quiet_span_def)
  have b: "trace_tool_next AtYieldSpan s exit_fails_span =
             (AtYieldExcept, s, [SpanExit None], Yields)" for s
    by (simp add: trace_tool_next_def trace_tool_except_def exit_fails_span_def
        quiet_span_def exit_error_def)
  show ?thesis
    by (simp add: with_trace_tool_def a b trace_tool_close_in_handler)
qed

lemma new_tracer_flag_off:
  "check_enabled env = Inr False \<Longrightarrow> new_tracer env = Inr (init_fields False)"
  by (simp add: new_tracer_def)

lemma check_enabled_flag_off:
  "lower (case ENABLE_AGENT_LIGHTNING env of None \<Rightarrow> ''false'' | Some v \<Rightarrow> v) \<noteq> ''true''
   \<Longrightarrow> check_enabled env = Inr False"
  by (simp add: check_enabled_def)

lemma handle_session_start_flag_off:
  assumes "check_enabled env = Inr False"
  shows "handle_session_start fresh_service env clk sb (Inr hi_request) =
           (\<lparr> the_tracer = Some (init_fields False),
              current_sessions = [(Some (''session-'' @ timestamp_str clk),
                 \<lparr> started_at = isoformat clk, message = ''hi'', tool_count = 0 \<rparr>)] \<rparr>,
            [],
            Inr (json_response [(''success'', JBool True),
                   (''session_id'', JStr (''session-'' @ timestamp_str clk)),
                   (''enabled'', JBool False)]))"
  using assms
  by (simp add: handle_session_start_def fresh_service_def hi_request_def new_tracer_flag_off
      start_session_disabled init_fields_def json_of_str_def)

lemma active_sessions_stats:
  "active_sessions (handle_stats s now) = Some (JInt (int (length (current_sessions s))))"
  by (simp add: active_sessions_def handle_stats_def json_response_def Let_def
      split: option.splits)

lemma handle_session_end_disabled:
  assumes "the_tracer s = Some t" "\<not> enabled t"
  shows "handle_session_end s x (Inr sid) =
           (s\<lparr>current_sessions := AList.delete sid (current_sessions s)\<rparr>, [],
            Inr (json_response [(''success'', JBool True), (''ended'', JBool False),
                                (''reason'', JStr ''tracing disabled'')]))"
  using assms by (simp add: handle_session_end_def)


section \<open>The claims\<close>

subsection \<open>C1: \<open>trace_tool\<close> and the outcome of the wrapped work\<close>

text \<open>
  C1 says that the outcome of the wrapped work reaches the caller unchanged, and in
  particular that an exception raised by the wrapped work propagates as that same
  exception. The code does not do this while a span is open: the \<open>yield\<close> stands inside
  \<open>try ... except Exception\<close>, so the exception of the work, thrown into the generator at
  that \<open>yield\<close>, is caught by the handler that is meant for failures of tracing; the
  handler yields again, and \<open>contextlib\<close> answers a generator that does not stop after
  \<open>throw\<close> with a \<open>RuntimeError\<close>. On a tracer in a session, with a backend that never
  fails, wrapped work that raises \<open>ValueError\<close> runs once, the span is closed, and the
  caller receives the \<open>RuntimeError\<close> in place of the \<open>ValueError\<close>.
\<close>

theorem trace_tool_replaces_exception:
  "with_trace_tool active_tracer ''web_search'' [] quiet_span (Raised value_error :: unit outcome) =
     (active_tracer\<lparr>tool_call_count := 4\<rparr>,
      [SpanEnter ''tool-web_search'', SetAttribute ''tool.name'' (AStr ''web_search''),
       SetAttribute ''tool.call_number'' (AInt 4), BodyRun, SpanExit (Some value_error)],
      Propagated (Exn ''RuntimeError'' ''generator didn't stop after throw()''))"
proof -
  have e: "is_Exception value_error" by (simp add: value_error_def)
  show ?thesis
    by (simp add: with_trace_tool_def trace_tool_start_active trace_tool_throw_in_span [OF e]
        trace_tool_close_in_handler)
qed

subsection \<open>C2: \<open>end_session\<close> when closing the trace context fails\<close>

text \<open>
  C2 says that \<open>end_session\<close> on an enabled tracer resets the rollout reference, the
  session start time and the tool-call counter even when the exit call of the trace
  context raises. In the code the three assignments stand inside the \<open>try\<close>, after the
  exit call: when that call raises, control passes to the handler and none of them
  runs. On a tracer in a session whose context raises on exit, \<open>end_session\<close> returns
  without an exception and leaves every field as it was, so the tracer is not idle.
\<close>

theorem end_session_keeps_state_on_exit_failure:
  "end_session active_tracer (Some exit_error) = (active_tracer, [ContextExit], None) \<and>
   current_rollout active_tracer = Some \<lparr> rollout_id = ''r-1'', attempt_id = ''a-1'' \<rparr> \<and>
   session_start_time active_tracer = Some 100 \<and>
   tool_call_count active_tracer = 3 \<and>
   \<not> idle active_tracer"
  by (simp add: end_session_def active_tracer_def exit_error_def idle_def)

subsection \<open>C3: the operations when the gate is closed\<close>

text \<open>
  C3: on a tracer that is not enabled, \<open>start_session\<close>, \<open>emit_task_reward\<close> and
  \<open>end_session\<close> return without an exception, call nothing of the backend and leave the
  tracer as it was; \<open>trace_tool\<close> leaves the tracer as it was, runs the wrapped work
  exactly once and hands its outcome to the caller: the value it returned, or the
  exception it raised, and no other.
\<close>

theorem gate_closed_noop:
  assumes "\<not> enabled self"
  shows "start_session self user_message session_metadata sb = (self, [], None) \<and>
         with_trace_tool self tool_name kw be work =
           (self, [BodyRun],
            (case work of Returned v \<Rightarrow> Completed v | Raised e \<Rightarrow> Propagated e)) \<and>
         emit_task_reward self success tokens_used expected_tokens duration_seconds user_rating rb =
           (self, [], None) \<and>
         end_session self ctx_aexit = (self, [], None)"
  using assms
  by (simp add: start_session_disabled with_trace_tool_disabled emit_task_reward_disabled
      end_session_disabled)

theorem gate_closed_noop_witness:
  "\<not> enabled (init_fields False) \<and>
   start_session (init_fields False) ''hi'' None backend_ok = (init_fields False, [], None) \<and>
   with_trace_tool (init_fields False) ''read'' [] quiet_span (Raised value_error :: nat outcome) =
     (init_fields False, [BodyRun], Propagated value_error) \<and>
   emit_task_reward (init_fields False) True (Some 400) (Some 500) (Some 10) None (clock_at 160) =
     (init_fields False, [], None) \<and>
   end_session (init_fields False) (Some exit_error) = (init_fields False, [], None)"
  using gate_closed_noop [where self = "init_fields False" and user_message = "''hi''"
      and session_metadata = None and sb = backend_ok and tool_name = "''read''" and kw = "[]"
      and be = quiet_span and work = "Raised value_error :: nat outcome" and success = True
      and tokens_used = "Some 400" and expected_tokens = "Some 500"
      and duration_seconds = "Some 10" and user_rating = None and rb = "clock_at 160"
      and ctx_aexit = "Some exit_error"]
  by (simp add: init_fields_def)

subsection \<open>C4: the token bonus\<close>

text \<open>
  C4 says that the token bonus is added whenever both token counts are given and
  \<open>tokens_used < expected_tokens\<close>, also for \<open>tokens_used = 0\<close>. The code tests the two
  arguments by their truth value, not against \<open>None\<close>, and zero is false: with
  \<open>tokens_used = 0\<close> and \<open>expected_tokens = 500\<close> no bonus is added, and a successful
  task of 60 seconds gets the reward 1.0 where the claim gives 1.1.
\<close>

theorem token_bonus_skipped_at_zero:
  "\<not> token_bonus_applies (Some 0) (Some 500) \<and>
   task_reward (Some 100) 160 True (Some 0) (Some 500) (Some 60) None = 1"
  by (simp add: reward_defs)

subsection \<open>C5: the time bonus\<close>

text \<open>
  C5 says that the time bonus is added whenever the effective duration is below 30
  seconds, also for an explicit \<open>duration_seconds = 0.0\<close>. The code tests the duration by
  its truth value before it compares, and 0.0 is false: with \<open>duration_seconds = 0.0\<close>
  no bonus is added, and a successful task gets the reward 1.0 where the claim
  gives 1.1.
\<close>

theorem time_bonus_skipped_at_zero:
  "effective_duration (Some 0) (Some 100) 160 = Some 0 \<and>
   \<not> time_bonus_applies (effective_duration (Some 0) (Some 100) 160) \<and>
   task_reward (Some 100) 160 True None None (Some 0) None = 1"
  by (simp add: reward_defs)

subsection \<open>C6: the enabled flag is a one-way latch\<close>

text \<open>
  C6, in three parts. A tracer that is not enabled is not enabled after any sequence of
  operations. When the rollout-start step of \<open>start_session\<close> fails with an \<open>Exception\<close>,
  the call returns without an exception and the tracer is not enabled after it, nor
  after any sequence of later operations. When only the step that opens the trace
  context fails with an \<open>Exception\<close> (entering the lifespan, or entering the trace
  context), the call returns without an exception, the tracer stays enabled, the rollout
  is kept and the context handle is \<open>None\<close>; a later \<open>start_session\<close> whose backend
  calls succeed then has a trace context again.
\<close>

theorem enabled_latch:
  "(\<not> enabled off \<longrightarrow> \<not> enabled (foldl apply_operation off (ops :: 'a operation list))) \<and>
   (enabled self \<and> start_rollout sb (input_data m (time_time sb) md) = Inl e \<and>
    is_Exception e \<longrightarrow>
      snd (snd (start_session self m md sb)) = None \<and>
      \<not> enabled (fst (start_session self m md sb)) \<and>
      \<not> enabled (foldl apply_operation (fst (start_session self m md sb)) ops)) \<and>
   (enabled self' \<and> store self' \<noteq> None \<and>
    start_rollout sb' (input_data m' (time_time sb') md') = Inr r \<and> is_Exception e' \<and>
    (lifespan_enter sb' = Some e' \<or>
     (lifespan_enter sb' = None \<and> trace_context_aenter sb' = Inl e')) \<longrightarrow>
      snd (snd (start_session self' m' md' sb')) = None \<and>
      enabled (fst (start_session self' m' md' sb')) \<and>
      current_tracer_ctx (fst (start_session self' m' md' sb')) = None \<and>
      current_rollout (fst (start_session self' m' md' sb')) = Some r \<and>
      (tracer self' \<noteq> None \<and>
       start_rollout sbl (input_data ml (time_time sbl) mdl) = Inr rl \<and>
       lifespan_enter sbl = None \<and> trace_context_aenter sbl = Inr cl \<longrightarrow>
         enabled (fst (start_session (fst (start_session self' m' md' sb')) ml mdl sbl)) \<and>
         current_tracer_ctx (fst (start_session (fst (start_session self' m' md' sb')) ml mdl sbl))
           = Some cl))"
proof (intro conjI impI)
  assume "\<not> enabled off"
  then show "\<not> enabled (foldl apply_operation off ops)" by (simp add: run_disabled)
next
  assume h: "enabled self \<and> start_rollout sb (input_data m (time_time sb) md) = Inl e \<and>
    is_Exception e"
  then have d: "\<not> enabled (fst (start_session self m md sb))"
    and n: "snd (snd (start_session self m md sb)) = None"
    using start_session_rollout_fails [of self sb m md e] by simp_all
  show "snd (snd (start_session self m md sb)) = None" by (rule n)
  show "\<not> enabled (fst (start_session self m md sb))" by (rule d)
  show "\<not> enabled (foldl apply_operation (fst (start_session self m md sb)) ops)"
    using d by (simp add: run_disabled)
next
  assume h: "enabled self' \<and> store self' \<noteq> None \<and>
    start_rollout sb' (input_data m' (time_time sb') md') = Inr r \<and> is_Exception e' \<and>
    (lifespan_enter sb' = Some e' \<or>
     (lifespan_enter sb' = None \<and> trace_context_aenter sb' = Inl e'))"
  let ?s = "fst (start_session self' m' md' sb')"
  have f: "enabled ?s \<and> current_tracer_ctx ?s = None \<and> current_rollout ?s = Some r \<and>
           tracer ?s = tracer self' \<and> store ?s = store self' \<and>
           snd (snd (start_session self' m' md' sb')) = None"
    using h start_session_ctx_fails [of self' sb' m' md' r e'] by blast
  from f show "snd (snd (start_session self' m' md' sb')) = None" by simp
  from f show "enabled ?s" by simp
  from f show "current_tracer_ctx ?s = None" by simp
  from f show "current_rollout ?s = Some r" by simp
  assume g: "tracer self' \<noteq> None \<and>
       start_rollout sbl (input_data ml (time_time sbl) mdl) = Inr rl \<and>
       lifespan_enter sbl = None \<and> trace_context_aenter sbl = Inr cl"
  have ok: "enabled (fst (start_session ?s ml mdl sbl)) \<and>
            current_tracer_ctx (fst (start_session ?s ml mdl sbl)) = Some cl \<and>
            snd (snd (start_session ?s ml mdl sbl)) = None"
    using f g h start_session_ok [of ?s sbl ml mdl rl cl] by simp
  from ok show "enabled (fst (start_session ?s ml mdl sbl))" by simp
  from ok show "current_tracer_ctx (fst (start_session ?s ml mdl sbl)) = Some cl" by simp
qed

theorem enabled_latch_witness:
  "\<not> enabled (init_fields False) \<and>
   \<not> enabled (foldl apply_operation (init_fields False)
       [StartSession ''again'' None backend_ok, TraceTool ''read'' [] quiet_span (Returned ()),
        EndSession None]) \<and>
   enabled fresh_enabled_tracer \<and>
   start_rollout rollout_fails (input_data ''hi'' (time_time rollout_fails) None) = Inl store_error \<and>
   is_Exception store_error \<and>
   snd (snd (start_session fresh_enabled_tracer ''hi'' None rollout_fails)) = None \<and>
   \<not> enabled (fst (start_session fresh_enabled_tracer ''hi'' None rollout_fails)) \<and>
   \<not> enabled (foldl apply_operation (fst (start_session fresh_enabled_tracer ''hi'' None rollout_fails))
       [StartSession ''again'' None backend_ok, TraceTool ''read'' [] quiet_span (Returned ()),
        EndSession None]) \<and>
   store fresh_enabled_tracer \<noteq> None \<and> tracer fresh_enabled_tracer \<noteq> None \<and>
   lifespan_enter context_fails = None \<and> trace_context_aenter context_fails = Inl exit_error \<and>
   is_Exception exit_error \<and>
   enabled (fst (start_session fresh_enabled_tracer ''hi'' None context_fails)) \<and>
   current_tracer_ctx (fst (start_session fresh_enabled_tracer ''hi'' None context_fails)) = None \<and>
   current_rollout (fst (start_session fresh_enabled_tracer ''hi'' None context_fails)) =
     Some \<lparr> rollout_id = ''r-2'', attempt_id = ''a-2'' \<rparr> \<and>
   current_tracer_ctx (fst (start_session
       (fst (start_session fresh_enabled_tracer ''hi'' None context_fails))
       ''again'' None backend_ok)) = Some 4"
  using enabled_latch [where off = "init_fields False"
      and ops = "[StartSession ''again'' None backend_ok,
                  TraceTool ''read'' [] quiet_span (Returned ()), EndSession None]"
      and self = fresh_enabled_tracer and sb = rollout_fails and m = "''hi''" and md = None
      and e = store_error
      and self' = fresh_enabled_tracer and sb' = context_fails and m' = "''hi''" and md' = None
      and r = "\<lparr> rollout_id = ''r-2'', attempt_id = ''a-2'' \<rparr>" and e' = exit_error
      and sbl = backend_ok and ml = "''again''" and mdl = None
      and rl = "\<lparr> rollout_id = ''r-2'', attempt_id = ''a-2'' \<rparr>" and cl = 4]
  by (simp add: init_fields_def fresh_enabled_tracer_def rollout_fails_def context_fails_def
      backend_ok_def store_error_def exit_error_def)

subsection \<open>C7: the reward and the clock\<close>

text \<open>
  C7 says that two calls of \<open>emit_task_reward\<close> with the same arguments on the same
  tracer state compute the same reward. When \<open>duration_seconds\<close> is omitted and a session
  start time is known, the code takes the duration from \<open>time.time()\<close>, so the reward
  also depends on when the call is made: on a tracer whose session started at 100, a
  successful task with no other argument is rewarded 1.1 at time 110 and 1.0 at
  time 140.
\<close>

theorem reward_depends_on_clock:
  "task_reward (session_start_time active_tracer) 110 True None None None None = 11 / 10 \<and>
   task_reward (session_start_time active_tracer) 140 True None None None None = 1 \<and>
   emit_task_reward active_tracer True None None None None (clock_at 110) \<noteq>
   emit_task_reward active_tracer True None None None None (clock_at 140)"
  by (simp add: reward_defs emit_task_reward_def active_tracer_def clock_at_def)

text \<open>
  C7, amended: the reward is computed from the arguments, the session start time of the
  tracer and the reading of the clock. When \<open>duration_seconds\<close> is given, or the tracer
  has no session start time (\<open>None\<close>, or zero, which the code takes for none), the clock
  is not read: two calls with the same arguments on the same tracer state compute the
  same reward and do the same, whenever they are made.
\<close>

theorem reward_deterministic_without_clock:
  assumes "duration_seconds \<noteq> None \<or> \<not> truthy_float (session_start_time self)"
  shows "task_reward (session_start_time self) now success tokens_used expected_tokens
           duration_seconds user_rating =
         task_reward (session_start_time self) now' success tokens_used expected_tokens
           duration_seconds user_rating \<and>
         emit_task_reward self success tokens_used expected_tokens duration_seconds user_rating
           \<lparr> reward_time = now, emit_reward = em \<rparr> =
         emit_task_reward self success tokens_used expected_tokens duration_seconds user_rating
           \<lparr> reward_time = now', emit_reward = em \<rparr>"
proof -
  have d: "effective_duration duration_seconds (session_start_time self) now =
           effective_duration duration_seconds (session_start_time self) now'"
    using assms by (auto simp: effective_duration_def)
  have r: "task_reward (session_start_time self) now success tokens_used expected_tokens
             duration_seconds user_rating =
           task_reward (session_start_time self) now' success tokens_used expected_tokens
             duration_seconds user_rating"
    by (simp add: task_reward_def d)
  show ?thesis by (simp add: r emit_task_reward_def)
qed

theorem reward_deterministic_without_clock_witness:
  "Some (10::real) \<noteq> None \<and>
   task_reward (session_start_time active_tracer) 110 True None None (Some 10) None = 11 / 10 \<and>
   task_reward (session_start_time active_tracer) 140 True None None (Some 10) None = 11 / 10 \<and>
   emit_task_reward active_tracer True None None (Some 10) None (clock_at 110) =
   emit_task_reward active_tracer True None None (Some 10) None (clock_at 140)"
  using reward_deterministic_without_clock [where self = active_tracer
      and duration_seconds = "Some 10" and now = 110 and now' = 140 and success = True
      and tokens_used = None and expected_tokens = None and user_rating = None
      and em = "\<lambda>r. None"]
  by (simp add: clock_at_def reward_defs active_tracer_def)

subsection \<open>C8: a session with the feature flag off\<close>

text \<open>
  C8: the service has just started and the feature flag is off (the variable is unset,
  or its value in lower case is not \<open>true\<close>). \<open>POST /session/start\<close> with the body
  \<open>{"message": "hi"}\<close> answers success true, the generated session id and enabled
  false, calls nothing of the backend and registers the session, so \<open>GET /stats\<close> reports
  one active session. \<open>POST /session/end\<close> with that session id answers success true
  and ended false and removes the entry, so \<open>GET /stats\<close> reports no active session.
\<close>

theorem flag_off_scenario:
  assumes "lower (case ENABLE_AGENT_LIGHTNING env of None \<Rightarrow> ''false'' | Some v \<Rightarrow> v) \<noteq> ''true''"
  shows "(case handle_session_start fresh_service env clk sb (Inr hi_request) of
            (s, evs, r) \<Rightarrow>
              r = Inr (json_response [(''success'', JBool True),
                         (''session_id'', JStr (''session-'' @ timestamp_str clk)),
                         (''enabled'', JBool False)]) \<and>
              evs = [] \<and>
              map_of (current_sessions s) (Some (''session-'' @ timestamp_str clk)) =
                Some \<lparr> started_at = isoformat clk, message = ''hi'', tool_count = 0 \<rparr> \<and>
              active_sessions (handle_stats s now) = Some (JInt 1) \<and>
              (case handle_session_end s x (Inr (Some (''session-'' @ timestamp_str clk))) of
                 (s', evs', r') \<Rightarrow>
                   r' = Inr (json_response [(''success'', JBool True), (''ended'', JBool False),
                               (''reason'', JStr ''tracing disabled'')]) \<and>
                   evs' = [] \<and>
                   current_sessions s' = [] \<and>
                   active_sessions (handle_stats s' now') = Some (JInt 0)))"
proof -
  have off: "check_enabled env = Inr False"
    using assms by (rule check_enabled_flag_off)
  show ?thesis
    by (simp add: handle_session_start_flag_off [OF off] active_sessions_stats
        handle_session_end_disabled init_fields_def)
qed

theorem flag_off_scenario_witness:
  "lower (case ENABLE_AGENT_LIGHTNING flag_unset of None \<Rightarrow> ''false'' | Some v \<Rightarrow> v) \<noteq> ''true'' \<and>
   snd (snd (handle_session_start fresh_service flag_unset noon backend_ok (Inr hi_request))) =
     Inr (json_response [(''success'', JBool True),
            (''session_id'', JStr ''session-1700000000.5''), (''enabled'', JBool False)]) \<and>
   active_sessions (handle_stats
       (fst (handle_session_start fresh_service flag_unset noon backend_ok (Inr hi_request))) 0) =
     Some (JInt 1) \<and>
   snd (snd (handle_session_end
       (fst (handle_session_start fresh_service flag_unset noon backend_ok (Inr hi_request)))
       None (Inr (Some ''session-1700000000.5'')))) =
     Inr (json_response [(''success'', JBool True), (''ended'', JBool False),
            (''reason'', JStr ''tracing disabled'')]) \<and>
   active_sessions (handle_stats
       (fst (handle_session_end
          (fst (handle_session_start fresh_service flag_unset noon backend_ok (Inr hi_request)))
          None (Inr (Some ''session-1700000000.5'')))) 0) =
     Some (JInt 0)"
proof -
  have off: "lower (case ENABLE_AGENT_LIGHTNING flag_unset of None \<Rightarrow> ''false'' | Some v \<Rightarrow> v)
               \<noteq> ''true''"
    by (simp add: flag_unset_def lower_def)
  show ?thesis
    using off flag_off_scenario [OF off, where clk = noon and sb = backend_ok and x = None
        and now = 0 and now' = 0]
    by (simp add: noon_def split: prod.splits)
qed

subsection \<open>C9: \<open>end_session\<close> twice in a row\<close>

text \<open>
  C9 says that on every tracer state two calls of \<open>end_session\<close> in a row raise nothing
  and each leaves the tracer idle. Two states show otherwise. A tracer whose
  \<open>start_session\<close> failed at the rollout-start step is disabled with its session start
  time still set; \<open>end_session\<close> does nothing on a disabled tracer, so the start time
  stays. A tracer in a session whose trace context raises on exit keeps its context,
  rollout and start time through both calls.
\<close>

theorem end_session_twice_not_idle:
  "\<not> idle (fst (end_session
             (fst (end_session (fst (start_session fresh_enabled_tracer ''hi'' None rollout_fails))
                     None))
             None)) \<and>
   \<not> idle (fst (end_session (fst (end_session active_tracer (Some exit_error)))
             (Some exit_error)))"
  by (simp add: end_session_def start_session_def start_outer_except_def idle_def
      fresh_enabled_tracer_def init_fields_def rollout_fails_def backend_ok_def store_error_def
      active_tracer_def exit_error_def)

text \<open>
  C9, amended: on an enabled tracer that has no trace context open, or whose trace
  context closes without raising, two calls of \<open>end_session\<close> in a row raise nothing and
  each leaves the tracer idle. On a tracer that is not enabled both calls raise nothing
  and leave the tracer as it was.
\<close>

theorem end_session_twice:
  "(enabled self \<and> (current_tracer_ctx self = None \<or> x = None) \<longrightarrow>
      snd (snd (end_session self x)) = None \<and> idle (fst (end_session self x)) \<and>
      snd (snd (end_session (fst (end_session self x)) y)) = None \<and>
      idle (fst (end_session (fst (end_session self x)) y))) \<and>
   (\<not> enabled off \<longrightarrow>
      end_session off x = (off, [], None) \<and>
      end_session (fst (end_session off x)) y = (off, [], None))"
proof (intro conjI impI)
  assume h: "enabled self \<and> (current_tracer_ctx self = None \<or> x = None)"
  let ?s = "fst (end_session self x)"
  have a: "idle ?s \<and> tool_call_count ?s = 0 \<and> enabled ?s \<and>
           snd (snd (end_session self x)) = None"
    using h end_session_closes [of self x] by simp
  from a show "snd (snd (end_session self x)) = None" by simp
  from a show "idle ?s" by simp
  have b: "end_session ?s y = (?s\<lparr>tool_call_count := 0\<rparr>, [], None)"
    using a end_session_idle [of ?s y] by simp
  from b show "snd (snd (end_session ?s y)) = None" by simp
  from a b show "idle (fst (end_session ?s y))" by (simp add: idle_def)
next
  assume "\<not> enabled off"
  then show "end_session off x = (off, [], None)" by (simp add: end_session_disabled)
next
  assume "\<not> enabled off"
  then show "end_session (fst (end_session off x)) y = (off, [], None)"
    by (simp add: end_session_disabled)
qed

theorem end_session_twice_witness:
  "enabled active_tracer \<and>
   snd (snd (end_session active_tracer None)) = None \<and>
   idle (fst (end_session active_tracer None)) \<and>
   snd (snd (end_session (fst (end_session active_tracer None)) (Some exit_error))) = None \<and>
   idle (fst (end_session (fst (end_session active_tracer None)) (Some exit_error))) \<and>
   \<not> enabled (init_fields False) \<and>
   end_session (fst (end_session (init_fields False) None)) (Some exit_error) =
     (init_fields False, [], None)"
  using end_session_twice [where self = active_tracer and x = None and y = "Some exit_error"
      and off = "init_fields False"]
  by (simp add: active_tracer_def init_fields_def end_session_def idle_def)

subsection \<open>C10: \<open>POST /tool/trace\<close> for a session id that is not registered\<close>

text \<open>
  C10: while tracing is enabled, \<open>POST /tool/trace\<close> with a session id that is not a key
  of the session registry answers success true, traced true and the tool name of the
  request, and leaves the service as it was: no entry is created and no counter
  changes. For a session id that is registered, the tool counter of its entry goes up
  by one.
\<close>

theorem tool_trace_unregistered:
  "(the_tracer s = Some t \<and> enabled t \<and> sid \<notin> set (map fst (current_sessions s)) \<longrightarrow>
      handle_tool_trace s
        (Inr \<lparr> trace_session_id = sid, trace_tool_name = name, trace_params = params \<rparr>) =
        (s, Inr (json_response [(''success'', JBool True), (''traced'', JBool True),
                                (''tool_name'', json_of_str name)]))) \<and>
   (the_tracer s = Some t \<and> enabled t \<and> map_of (current_sessions s) known = Some entry \<longrightarrow>
      map_of (current_sessions (fst (handle_tool_trace s
        (Inr \<lparr> trace_session_id = known, trace_tool_name = name, trace_params = params \<rparr>)))) known =
        Some (entry\<lparr>tool_count := tool_count entry + 1\<rparr>))"
proof (intro conjI impI)
  assume h: "the_tracer s = Some t \<and> enabled t \<and> sid \<notin> set (map fst (current_sessions s))"
  then have "map_of (current_sessions s) sid = None"
    by (simp add: map_of_eq_None_iff)
  with h show "handle_tool_trace s
        (Inr \<lparr> trace_session_id = sid, trace_tool_name = name, trace_params = params \<rparr>) =
        (s, Inr (json_response [(''success'', JBool True), (''traced'', JBool True),
                                (''tool_name'', json_of_str name)]))"
    by (simp add: handle_tool_trace_def tracing_disabled_def)
next
  assume "the_tracer s = Some t \<and> enabled t \<and> map_of (current_sessions s) known = Some entry"
  then show "map_of (current_sessions (fst (handle_tool_trace s
        (Inr \<lparr> trace_session_id = known, trace_tool_name = name, trace_params = params \<rparr>)))) known =
        Some (entry\<lparr>tool_count := tool_count entry + 1\<rparr>)"
    by (simp add: handle_tool_trace_def tracing_disabled_def update_conv')
qed

theorem tool_trace_unregistered_witness:
  "the_tracer serving = Some active_tracer \<and> enabled active_tracer \<and>
   Some ''ghost'' \<notin> set (map fst (current_sessions serving)) \<and>
   handle_tool_trace serving
     (Inr \<lparr> trace_session_id = Some ''ghost'', trace_tool_name = Some ''read'',
            trace_params = None \<rparr>) =
     (serving, Inr (json_response [(''success'', JBool True), (''traced'', JBool True),
                                   (''tool_name'', JStr ''read'')])) \<and>
   map_of (current_sessions (fst (handle_tool_trace serving
     (Inr \<lparr> trace_session_id = Some ''s-1'', trace_tool_name = Some ''read'',
            trace_params = None \<rparr>)))) (Some ''s-1'') =
     Some \<lparr> started_at = ''2023-11-14T22:13:20'', message = ''hi'', tool_count = 3 \<rparr>"
  using tool_trace_unregistered [where s = serving and t = active_tracer
      and sid = "Some ''ghost''" and name = "Some ''read''" and params = None
      and known = "Some ''s-1''"
      and entry = "\<lparr> started_at = ''2023-11-14T22:13:20'', message = ''hi'', tool_count = 2 \<rparr>"]
  by (simp add: serving_def active_tracer_def json_of_str_def)

end
